theory Spec2Isabelle
  imports Main
begin

section \<open>Position identifiers\<close>

text \<open>
  The modules \<^verbatim>\<open>./pid\<close>, \<^verbatim>\<open>./crdt\<close> and \<^verbatim>\<open>./protocol\<close> are imported by
  \<^verbatim>\<open>client.ts\<close> but are not part of the sources at hand. What the client needs of them
  is modelled from the specification (sections 3, 4.1 and 4.2); the two operations whose
  algorithm the specification leaves open, \<^verbatim>\<open>pid.generate\<close> and
  \<^verbatim>\<open>protocol.validateMessage\<close>, are parameters of every function that calls them.
\<close>

type_synonym ClientId = nat

text \<open>Modelled from the spec: a PID is a sequence of levels, each a (digit, siteId) pair
  (the type \<^verbatim>\<open>Pid\<close> of the missing module \<^verbatim>\<open>./pid\<close>).\<close>

type_synonym Pid = "(nat \<times> nat) list"

text \<open>Modelled from the spec: the total order of \<^verbatim>\<open>./pid\<close>, level by level on the digit,
  the siteId breaking ties, a strict prefix sorting first.\<close>

fun pid_less :: "Pid \<Rightarrow> Pid \<Rightarrow> bool" where
  "pid_less [] [] = False"
| "pid_less [] (y # ys) = True"
| "pid_less (x # xs) [] = False"
| "pid_less ((d, s) # xs) ((e, t) # ys) =
     (d < e \<or> (d = e \<and> (s < t \<or> (s = t \<and> pid_less xs ys))))"

section \<open>The sequence CRDT\<close>

text \<open>Modelled from the spec: the class \<^verbatim>\<open>CRDT\<close> of the missing module \<^verbatim>\<open>./crdt\<close>, a mapping
  from PID to character and the ascending index of all live PIDs, the two sentinels
  included.\<close>

record CRDT =
  chars :: "Pid \<rightharpoonup> char"
  sortedPids :: "Pid list"

text \<open>Modelled from the spec: \<^verbatim>\<open>new CRDT()\<close>, created empty.\<close>

definition CRDT_new :: CRDT where
  "CRDT_new = \<lparr>chars = Map.empty, sortedPids = []\<rparr>"

text \<open>Modelled from the spec: \<^verbatim>\<open>crdt.insert(pid, char)\<close> inserts if the PID is absent, does
  nothing if it is present, and returns the index position of the PID.\<close>

definition CRDT_insert :: "CRDT \<Rightarrow> Pid \<Rightarrow> char \<Rightarrow> CRDT \<times> int" where
  "CRDT_insert c p ch =
     (if p \<in> set (sortedPids c)
      then (c, int (length (takeWhile (\<lambda>q. q \<noteq> p) (sortedPids c))))
      else (let i = length (takeWhile (\<lambda>q. pid_less q p) (sortedPids c))
            in (c\<lparr>chars := (chars c)(p \<mapsto> ch),
                  sortedPids := take i (sortedPids c) @ [p] @ drop i (sortedPids c)\<rparr>,
                int i)))"

text \<open>Modelled from the spec: \<^verbatim>\<open>crdt.delete(pid)\<close> removes the entry and returns the index
  position it occupied, or a "not found" result for an absent PID; the specification does
  not give the value of that result, which is taken to be \<open>-1\<close> here.\<close>

definition CRDT_delete :: "CRDT \<Rightarrow> Pid \<Rightarrow> CRDT \<times> int" where
  "CRDT_delete c p =
     (if p \<in> set (sortedPids c)
      then (c\<lparr>chars := (chars c)(p := None), sortedPids := remove1 p (sortedPids c)\<rparr>,
            int (length (takeWhile (\<lambda>q. q \<noteq> p) (sortedPids c))))
      else (c, - 1))"

text \<open>Modelled from the spec: \<^verbatim>\<open>crdt.pidAt(offset)\<close> is the PID at index position
  \<open>offset + 2\<close>; out of range the array read is \<^verbatim>\<open>undefined\<close>, here \<open>None\<close>.\<close>

definition CRDT_pidAt :: "CRDT \<Rightarrow> nat \<Rightarrow> Pid option" where
  "CRDT_pidAt c offset =
     (if offset + 2 < length (sortedPids c) then Some (sortedPids c ! (offset + 2)) else None)"

text \<open>Modelled from the spec: \<^verbatim>\<open>crdt.charAt(pid)\<close>, the stored character or absent.\<close>

definition CRDT_charAt :: "CRDT \<Rightarrow> Pid \<Rightarrow> char option" where
  "CRDT_charAt c p = chars c p"

text \<open>Modelled from the spec: \<^verbatim>\<open>crdt.asString()\<close>, the characters at all non-sentinel PIDs
  in ascending order.\<close>

definition CRDT_asString :: "CRDT \<Rightarrow> string" where
  "CRDT_asString c = List.map_filter (chars c) (drop 2 (sortedPids c))"

text \<open>Modelled from the spec: \<^verbatim>\<open>crdt.initialize({hostId, uids, lines})\<close>; the PIDs, the two
  leading sentinels included, are aligned with the characters of the lines joined by the
  line separator.\<close>

fun join_lines :: "string list \<Rightarrow> string" where
  "join_lines [] = []"
| "join_lines [l] = l"
| "join_lines (l # ls) = l @ CHR 0x0A # join_lines ls"

definition CRDT_initialize :: "CRDT \<Rightarrow> nat \<Rightarrow> Pid list \<Rightarrow> string list \<Rightarrow> CRDT" where
  "CRDT_initialize c hostId uids lines =
     \<lparr>chars = map_of (zip (drop 2 uids) (join_lines lines)), sortedPids = uids\<rparr>"

text \<open>\<^verbatim>\<open>this.crdt.sortedPids[0]\<close> and \<^verbatim>\<open>this.crdt.sortedPids[this.crdt.sortedPids.length - 1]\<close>:
  reading an empty array gives \<^verbatim>\<open>undefined\<close>.\<close>

definition firstPid :: "CRDT \<Rightarrow> Pid option" where
  "firstPid c = (case sortedPids c of [] \<Rightarrow> None | p # _ \<Rightarrow> Some p)"

definition lastPid :: "CRDT \<Rightarrow> Pid option" where
  "lastPid c = (if sortedPids c = [] then None else Some (last (sortedPids c)))"

section \<open>The editor's document\<close>

text \<open>
  \<^verbatim>\<open>vscode.TextDocument\<close> belongs to the editor, not to the repository. Its three operations
  that the client calls are modelled on a text whose lines are separated by a line feed:
  \<^verbatim>\<open>positionAt\<close> clamps the offset to the text, \<^verbatim>\<open>offsetAt\<close> clamps the position to an
  existing line and to the length of that line, \<^verbatim>\<open>translate\<close> adds to the column.
\<close>

record Position =
  line :: nat
  character :: nat

fun pos_walk :: "string \<Rightarrow> nat \<Rightarrow> nat \<Rightarrow> nat \<Rightarrow> Position" where
  "pos_walk [] n l k = \<lparr>line = l, character = k\<rparr>"
| "pos_walk (x # xs) 0 l k = \<lparr>line = l, character = k\<rparr>"
| "pos_walk (x # xs) (Suc n) l k =
     (if x = CHR 0x0A then pos_walk xs n (Suc l) 0 else pos_walk xs n l (Suc k))"

definition positionAt :: "string \<Rightarrow> int \<Rightarrow> Position" where
  "positionAt text offset = pos_walk text (nat offset) 0 0"

fun off_walk :: "string \<Rightarrow> nat \<Rightarrow> nat \<Rightarrow> nat" where
  "off_walk [] l k = 0"
| "off_walk (x # xs) 0 0 = 0"
| "off_walk (x # xs) 0 (Suc k) = (if x = CHR 0x0A then 0 else Suc (off_walk xs 0 k))"
| "off_walk (x # xs) (Suc l) k =
     Suc (if x = CHR 0x0A then off_walk xs l k else off_walk xs (Suc l) k)"

definition offsetAt :: "string \<Rightarrow> Position \<Rightarrow> nat" where
  "offsetAt text p = off_walk text (line p) (character p)"

definition translate :: "Position \<Rightarrow> nat \<Rightarrow> Position" where
  "translate p delta = p\<lparr>character := character p + delta\<rparr>"

section \<open>Messages\<close>

text \<open>
  The wire messages of \<^verbatim>\<open>./protocol\<close> are positional arrays; the model gives each tag the
  fields its handler destructures. \<^verbatim>\<open>pid.serializable\<close> is the lossless wire encoding of a
  PID (specification, section 4.1), so a message carries the PID itself. A PID or a
  character read by \<^verbatim>\<open>pidAt\<close> or \<^verbatim>\<open>charAt\<close> may be \<^verbatim>\<open>undefined\<close>, hence the options of
  \<open>OP_DEL\<close>.
\<close>

datatype Op =
    OP_INS char Pid
  | OP_DEL "Pid option" "char option"
  | OP_other nat

datatype Message =
    MSG_INFO bool "string option" nat
  | MSG_TEXT Op "(nat \<times> nat) option" "ClientId option"
  | MSG_AVAILABLE bool ClientId bool
  | MSG_INITIAL string "nat \<times> nat" "Pid list" "string list"
  | MSG_REQUEST
  | MSG_other nat

datatype error = ValidationError | NotImplemented

section \<open>The client session\<close>

datatype EditKind = Insert | Delete

record ActiveEdit =
  kind :: EditKind
  range_start :: Position
  range_end :: Position
  edit_text :: string

text \<open>\<^verbatim>\<open>vscode.TextDocumentContentChangeEvent\<close> and \<^verbatim>\<open>vscode.TextDocumentChangeEvent\<close>; an
  event reports the changes of one edit of a document, none or several.\<close>

record ContentChange =
  change_start :: Position
  change_end :: Position
  rangeOffset :: nat
  rangeLength :: int
  change_text :: string

record ChangeEvent =
  ev_document :: nat
  contentChanges :: "ContentChange list"

text \<open>
  The editor works asynchronously. An edit requested with \<^verbatim>\<open>editor.edit\<close> is applied later,
  at the position it was requested with; the editor then raises the change event of the
  edit, and after that the promise of \<^verbatim>\<open>editor.edit\<close> resolves and whoever awaits it goes
  on. A job of the editor is either such an edit, together with what its requester does
  once it has completed, or the pending \<^verbatim>\<open>window.showTextDocument\<close> of
  \<^verbatim>\<open>handleInitialMessage\<close>, whose callback requests the insertion of the CRDT's text.
\<close>

datatype Edit = EditInsert Position string | EditDelete Position Position

datatype Continuation = ClearMarker | Done

datatype EditorJob = Apply Edit Continuation | ShowDocument

text \<open>
  The fields of class \<^verbatim>\<open>Client\<close>, followed by the collaborators its methods act on:
  \<^item> \<open>ws_sent\<close>: the frames handed to \<^verbatim>\<open>websocket.send\<close>, in order; \<open>ws_closed\<close>:
    \<^verbatim>\<open>websocket.close()\<close> was called; \<open>ws_listening\<close>: the socket's listeners are bound;
  \<^item> \<open>subscribed\<close>: the \<^verbatim>\<open>onDidChangeTextDocument\<close> subscription is live;
  \<^item> \<open>validated\<close>: the arguments of the calls of \<^verbatim>\<open>protocol.validateMessage\<close>, in order;
  \<^item> \<open>errors\<close>: the texts shown by \<^verbatim>\<open>window.showErrorMessage\<close>;
  \<^item> \<open>unhandled\<close>: the rejections of promises that nothing awaits;
  \<^item> \<open>doc_text\<close>: the content of \<^verbatim>\<open>this.document\<close>; \<open>editor_visible\<close>: whether
    \<^verbatim>\<open>window.visibleTextEditors\<close> holds an editor of it; \<open>edits\<close>: the edits the editor has
    applied; \<open>pending\<close>: the jobs the editor has been given and has not done yet, oldest
    first.
\<close>

record Client =
  isHost :: bool
  clientId :: "ClientId option"
  bufferName :: "string option"
  buffer :: "(nat \<times> nat) option"
  crdt :: CRDT
  document :: nat
  activeEdit :: "ActiveEdit option"
  ws_sent :: "Message list"
  ws_closed :: bool
  ws_listening :: bool
  subscribed :: bool
  validated :: "Message list"
  errors :: "string list"
  unhandled :: "error list"
  doc_text :: string
  editor_visible :: bool
  edits :: "Edit list"
  pending :: "EditorJob list"

type_synonym validator = "Message \<Rightarrow> bool"
type_synonym generator = "ClientId option \<Rightarrow> Pid option \<Rightarrow> Pid option \<Rightarrow> Pid"

text \<open>\<^verbatim>\<open>sendMessage\<close>: \<^verbatim>\<open>protocol.validateMessage\<close> throws on a malformed message (the
  promise is rejected and nothing is sent), otherwise the message goes to the socket.\<close>

definition sendMessage :: "validator \<Rightarrow> Message \<Rightarrow> Client \<Rightarrow> error option \<times> Client" where
  "sendMessage valid m s =
     (let s1 = s\<lparr>validated := validated s @ [m]\<rparr>
      in if valid m then (None, s1\<lparr>ws_sent := ws_sent s1 @ [m]\<rparr>)
         else (Some ValidationError, s1))"

definition sendInsert :: "validator \<Rightarrow> Pid \<Rightarrow> char \<Rightarrow> Client \<Rightarrow> error option \<times> Client" where
  "sendInsert valid p c s = sendMessage valid (MSG_TEXT (OP_INS c p) (buffer s) (clientId s)) s"

definition sendDelete ::
  "validator \<Rightarrow> Pid option \<Rightarrow> char option \<Rightarrow> Client \<Rightarrow> error option \<times> Client" where
  "sendDelete valid p c s = sendMessage valid (MSG_TEXT (OP_DEL p c) (buffer s) (clientId s)) s"

text \<open>\<^verbatim>\<open>sendInfo\<close>; the configured user name and the constant \<^verbatim>\<open>protocol.VSCODE_AGENT\<close>,
  declared in the missing module, are parameters.\<close>

definition sendInfo ::
  "validator \<Rightarrow> string option \<Rightarrow> nat \<Rightarrow> Client \<Rightarrow> error option \<times> Client" where
  "sendInfo valid username agent s = sendMessage valid (MSG_INFO False username agent) s"

definition requestInitialBuffer :: "validator \<Rightarrow> Client \<Rightarrow> error option \<times> Client" where
  "requestInitialBuffer valid s = sendMessage valid MSG_REQUEST s"

text \<open>\<^verbatim>\<open>insertFromContentChange\<close>. The callbacks of \<^verbatim>\<open>map\<close> are \<^verbatim>\<open>async\<close>: each runs up to its
  \<^verbatim>\<open>await\<close>, the send included, before the next one starts, so the characters are handled
  one after the other. \<open>previousPid\<close> and \<open>nextPid\<close> are the two local variables of the
  callback for the character of index \<open>i\<close>.\<close>

definition previousPid :: "Client \<Rightarrow> ContentChange \<Rightarrow> nat \<Rightarrow> Pid option" where
  "previousPid s change i =
     (let pos = positionAt (doc_text s) (int (rangeOffset change))
      in if i > 0 then CRDT_pidAt (crdt s) (offsetAt (doc_text s) (translate pos (i - 1)))
         else firstPid (crdt s))"

definition nextPid :: "Client \<Rightarrow> ContentChange \<Rightarrow> nat \<Rightarrow> Pid option" where
  "nextPid s change i =
     (let pos = positionAt (doc_text s) (int (rangeOffset change))
      in if i < length (change_text change) - 1
         then CRDT_pidAt (crdt s) (offsetAt (doc_text s) (translate pos i))
         else lastPid (crdt s))"

definition first_error :: "error option \<Rightarrow> error option \<Rightarrow> error option" where
  "first_error e es = (case e of Some x \<Rightarrow> Some x | None \<Rightarrow> es)"

fun insertChars ::
  "validator \<Rightarrow> generator \<Rightarrow> ContentChange \<Rightarrow> nat \<Rightarrow> string \<Rightarrow> Client \<Rightarrow> error option \<times> Client"
where
  "insertChars valid gen change i [] s = (None, s)"
| "insertChars valid gen change i (c # cs) s =
     (let p = gen (clientId s) (previousPid s change i) (nextPid s change i);
          s1 = s\<lparr>crdt := fst (CRDT_insert (crdt s) p c)\<rparr>;
          (e, s2) = sendInsert valid p c s1;
          (es, s3) = insertChars valid gen change (Suc i) cs s2
      in (first_error e es, s3))"

definition insertFromContentChange ::
  "validator \<Rightarrow> generator \<Rightarrow> ContentChange \<Rightarrow> Client \<Rightarrow> error option \<times> Client" where
  "insertFromContentChange valid gen change s =
     insertChars valid gen change 0 (change_text change) s"

text \<open>\<^verbatim>\<open>deleteFromContentChange\<close>. The PIDs are read first. Each callback of \<^verbatim>\<open>map\<close> sends
  its DELETE before its \<^verbatim>\<open>await\<close> and calls \<^verbatim>\<open>crdt.delete\<close> after it, only if the send was
  not rejected. So the method has a first part, which sends every DELETE and gives the PIDs
  with the outcome of their sends, and a second part, which runs when the awaited sends
  have settled.\<close>

definition deletedPids :: "Client \<Rightarrow> ContentChange \<Rightarrow> Pid option list" where
  "deletedPids s change =
     map (\<lambda>i. CRDT_pidAt (crdt s) i)
       (map (\<lambda>i. i + rangeOffset change) [0 ..< nat (rangeLength change)])"

definition charOf :: "CRDT \<Rightarrow> Pid option \<Rightarrow> char option" where
  "charOf c p = (case p of None \<Rightarrow> None | Some q \<Rightarrow> CRDT_charAt c q)"

fun sendDeletes :: "validator \<Rightarrow> Pid option list \<Rightarrow> Client \<Rightarrow> error option list \<times> Client" where
  "sendDeletes valid [] s = ([], s)"
| "sendDeletes valid (p # ps) s =
     (let (e, s1) = sendDelete valid p (charOf (crdt s) p) s;
          (es, s2) = sendDeletes valid ps s1
      in (e # es, s2))"

definition deletePid :: "CRDT \<Rightarrow> Pid option \<Rightarrow> CRDT \<times> int" where
  "deletePid c p = (case p of None \<Rightarrow> (c, - 1) | Some q \<Rightarrow> CRDT_delete c q)"

fun deleteSent :: "(Pid option \<times> error option) list \<Rightarrow> CRDT \<Rightarrow> CRDT" where
  "deleteSent [] c = c"
| "deleteSent ((p, e) # rest) c =
     deleteSent rest (if e = None then fst (deletePid c p) else c)"

type_synonym Deletion = "ContentChange \<times> (Pid option \<times> error option) list"

definition deleteFromContentChange_start ::
  "validator \<Rightarrow> ContentChange \<Rightarrow> Client \<Rightarrow> Deletion \<times> Client" where
  "deleteFromContentChange_start valid change s =
     (let ps = deletedPids s change;
          (es, s1) = sendDeletes valid ps s
      in ((change, zip ps es), s1))"

definition deleteFromContentChange_resume :: "Deletion \<Rightarrow> Client \<Rightarrow> Client" where
  "deleteFromContentChange_resume d s = s\<lparr>crdt := deleteSent (snd d) (crdt s)\<rparr>"

definition rejected :: "Deletion \<Rightarrow> error option" where
  "rejected d = fold (\<lambda>pe r. first_error r (snd pe)) (snd d) None"

definition isInsertEcho :: "Client \<Rightarrow> ContentChange \<Rightarrow> bool" where
  "isInsertEcho s change =
     (case activeEdit s of
        None \<Rightarrow> False
      | Some a \<Rightarrow> kind a = Insert \<and> rangeOffset change = character (range_start a))"

definition isDeleteEcho :: "Client \<Rightarrow> ContentChange \<Rightarrow> bool" where
  "isDeleteEcho s change =
     (case activeEdit s of
        None \<Rightarrow> False
      | Some a \<Rightarrow> kind a = Delete
          \<and> change_start change = range_start a \<and> change_end change = range_end a
          \<and> change_text change = [])"

text \<open>An \<^verbatim>\<open>async\<close> method returns its promise: \<open>None\<close> when it resolves, the error when it
  is rejected. A caller that does not await it drops the rejection.\<close>

definition drop_promise :: "error option \<times> Client \<Rightarrow> Client" where
  "drop_promise r =
     (case r of (None, s) \<Rightarrow> s | (Some x, s) \<Rightarrow> s\<lparr>unhandled := unhandled s @ [x]\<rparr>)"

text \<open>
  \<^verbatim>\<open>handleTextChange\<close> maps an \<^verbatim>\<open>async\<close> callback over the changes of the event. \<^verbatim>\<open>map\<close> runs
  each callback up to its first \<^verbatim>\<open>await\<close> that has to wait, one change after the other
  (\<open>startChange\<close>): a pure insertion is handled completely, since every send it awaits has
  been made when the callback of its character suspends; a change with a range sends its
  DELETEs and then waits. The waiting callbacks resume in the microtasks of the same turn.
  The awaits of all the DELETE callbacks resume first, all after the same number of steps,
  hence in the order they were created: every \<^verbatim>\<open>crdt.delete\<close> comes before any insertion
  phase. The promise that \<^verbatim>\<open>deleteFromContentChange\<close> awaits is a chain with one link for
  each deleted PID, so the insertion phase of a change resumes the later the more PIDs it
  deleted, changes with the same number resuming in their order; it does not run if one of
  the DELETEs was rejected. Every rejection is the validator's, and the promise of
  \<^verbatim>\<open>handleTextChange\<close> is rejected if any of the sends was.
\<close>

definition startChange ::
  "validator \<Rightarrow> generator \<Rightarrow> ContentChange
     \<Rightarrow> error option \<times> Deletion list \<times> Client \<Rightarrow> error option \<times> Deletion list \<times> Client"
where
  "startChange valid gen change acc =
     (case acc of (err, waiting, s) \<Rightarrow>
        if rangeLength change = 0 then
          (if isInsertEcho s change then (err, waiting, s)
           else (case insertFromContentChange valid gen change s of
                   (e, s1) \<Rightarrow> (first_error err e, waiting, s1)))
        else if rangeLength change > 0 then
          (if isDeleteEcho s change then (err, waiting, s)
           else (case deleteFromContentChange_start valid change s of
                   (d, s1) \<Rightarrow> (first_error err (rejected d), waiting @ [d], s1)))
        else (err, waiting, s))"

definition resumeInsert ::
  "validator \<Rightarrow> generator \<Rightarrow> Deletion \<Rightarrow> error option \<times> Client \<Rightarrow> error option \<times> Client"
where
  "resumeInsert valid gen d acc =
     (case acc of (err, s) \<Rightarrow>
        (case insertFromContentChange valid gen (fst d) s of
           (e, s1) \<Rightarrow> (first_error err e, s1)))"

definition handleTextChange ::
  "validator \<Rightarrow> generator \<Rightarrow> Client \<Rightarrow> ChangeEvent \<Rightarrow> error option \<times> Client" where
  "handleTextChange valid gen s e =
     (if ev_document e \<noteq> document s then (None, s)
      else (case fold (startChange valid gen) (contentChanges e) (None, [], s) of
              (err, waiting, s1) \<Rightarrow>
                fold (resumeInsert valid gen)
                  (sort_key (\<lambda>d. length (snd d)) (filter (\<lambda>d. rejected d = None) waiting))
                  (err, fold deleteFromContentChange_resume waiting s1)))"

text \<open>The listener registered by the constructor with \<^verbatim>\<open>onDidChangeTextDocument\<close>.\<close>

definition onDidChangeTextDocument ::
  "validator \<Rightarrow> generator \<Rightarrow> Client \<Rightarrow> ChangeEvent \<Rightarrow> Client" where
  "onDidChangeTextDocument valid gen s e =
     (if subscribed s then drop_promise (handleTextChange valid gen s e) else s)"

definition close :: "Client \<Rightarrow> Client" where
  "close s = s\<lparr>ws_listening := False, subscribed := False, ws_closed := True\<rparr>"

text \<open>\<^verbatim>\<open>editor()\<close>: the result is whether an editor was found.\<close>

definition editor :: "Client \<Rightarrow> bool \<times> Client" where
  "editor s =
     (if \<not> editor_visible s
      then (False, close (s\<lparr>errors := errors s @ [''Could not find editor for document'']\<rparr>))
      else (True, s))"

text \<open>\<^verbatim>\<open>handleRemoteInsert\<close>, as far as it runs when it is called. With an editor, the edit
  is requested and the method waits for it; resetting the marker is left to the editor's
  job, since no caller awaits the method and other events are handled in between. Without
  an editor the method awaits \<^verbatim>\<open>undefined\<close> and resets the marker in the same turn.\<close>

definition handleRemoteInsert ::
  "Client \<Rightarrow> Pid \<Rightarrow> char \<Rightarrow> ClientId option \<Rightarrow> error option \<times> Client" where
  "handleRemoteInsert s pid c cid =
     (let (cr, i) = CRDT_insert (crdt s) pid c;
          pos = positionAt (doc_text s) (i - 2);
          s1 = s\<lparr>crdt := cr,
                 activeEdit := Some \<lparr>kind = Insert, range_start = pos, range_end = pos,
                                     edit_text = [c]\<rparr>\<rparr>;
          (ed, s2) = editor s1
      in if ed
         then (None, s2\<lparr>pending := pending s2 @ [Apply (EditInsert pos [c]) ClearMarker]\<rparr>)
         else (None, s2\<lparr>activeEdit := None\<rparr>))"

text \<open>\<^verbatim>\<open>handleRemoteDelete\<close> is not \<^verbatim>\<open>async\<close>: it requests the edit and returns, and nothing
  is left to do when the edit has completed.\<close>

definition handleRemoteDelete :: "Client \<Rightarrow> Pid option \<Rightarrow> char option \<Rightarrow> ClientId option \<Rightarrow> Client" where
  "handleRemoteDelete s pid c cid =
     (let (cr, i) = deletePid (crdt s) pid;
          pos = positionAt (doc_text s) (i - 2);
          s1 = s\<lparr>crdt := cr,
                 activeEdit := Some \<lparr>kind = Delete, range_start = pos,
                                     range_end = translate pos 1, edit_text = []\<rparr>\<rparr>;
          (ed, s2) = editor s1
      in if ed
         then s2\<lparr>pending := pending s2 @ [Apply (EditDelete pos (translate pos 1)) Done]\<rparr>
         else s2)"

definition handleInitialMessage ::
  "Client \<Rightarrow> string \<Rightarrow> nat \<times> nat \<Rightarrow> Pid list \<Rightarrow> string list \<Rightarrow> error option \<times> Client" where
  "handleInitialMessage s name buf uids lines =
     (None, s\<lparr>bufferName := Some name, buffer := Some buf,
              crdt := CRDT_initialize (crdt s) (snd buf) uids lines,
              pending := pending s @ [ShowDocument]\<rparr>)"

definition handleAvailableMessage ::
  "validator \<Rightarrow> Client \<Rightarrow> bool \<Rightarrow> ClientId \<Rightarrow> bool \<Rightarrow> error option \<times> Client" where
  "handleAvailableMessage valid s isFirst cid sessionShare =
     (let s1 = (if isFirst \<and> \<not> isHost s
                then close (s\<lparr>errors := errors s @ [''Error: guest was first to connect'']\<rparr>)
                else s);
          s2 = (if sessionShare
                then close (s1\<lparr>errors := errors s1 @ [''Error: session share not implemented'']\<rparr>)
                else s1);
          s3 = s2\<lparr>clientId := Some cid\<rparr>
      in (None, if \<not> isHost s3 then drop_promise (requestInitialBuffer valid s3) else s3))"

definition handleText :: "Client \<Rightarrow> Op \<Rightarrow> ClientId option \<Rightarrow> error option \<times> Client" where
  "handleText s op cid =
     (case op of
        OP_INS c pid \<Rightarrow> (None, drop_promise (handleRemoteInsert s pid c cid))
      | OP_DEL pid c \<Rightarrow> (None, handleRemoteDelete s pid c cid)
      | OP_other n \<Rightarrow> (None, s))"

definition handleMessage :: "validator \<Rightarrow> Client \<Rightarrow> Message \<Rightarrow> error option \<times> Client" where
  "handleMessage valid s json =
     (let s0 = s\<lparr>validated := validated s @ [json]\<rparr>
      in if \<not> valid json then (Some ValidationError, s0)
         else (case json of
                 MSG_TEXT op b cid \<Rightarrow> (None, drop_promise (handleText s0 op cid))
               | MSG_AVAILABLE isFirst cid sessionShare \<Rightarrow>
                   (None, drop_promise (handleAvailableMessage valid s0 isFirst cid sessionShare))
               | MSG_INITIAL name buf uids lines \<Rightarrow>
                   (None, drop_promise (handleInitialMessage s0 name buf uids lines))
               | _ \<Rightarrow> (None, s0\<lparr>errors := errors s0 @ [''Received unhandled message'']\<rparr>)))"

definition setupGuest :: "Client \<Rightarrow> error option \<times> Client" where
  "setupGuest s = (None, s\<lparr>ws_listening := True\<rparr>)"

text \<open>\<^verbatim>\<open>setupHost\<close> is \<^verbatim>\<open>async\<close>: its \<^verbatim>\<open>throw\<close> rejects the promise it returns.\<close>

definition setupHost :: "Client \<Rightarrow> error option \<times> Client" where
  "setupHost s = (Some NotImplemented, s)"

text \<open>The listeners bound by \<^verbatim>\<open>setupGuest\<close> to the socket's \<^verbatim>\<open>open\<close> and \<^verbatim>\<open>message\<close>
  events; every frame received reaches the client through \<open>on_message\<close>.\<close>

definition on_open :: "validator \<Rightarrow> string option \<Rightarrow> nat \<Rightarrow> Client \<Rightarrow> Client" where
  "on_open valid username agent s =
     (if ws_listening s then drop_promise (sendInfo valid username agent s) else s)"

definition on_message :: "validator \<Rightarrow> Client \<Rightarrow> Message \<Rightarrow> Client" where
  "on_message valid s json =
     (if ws_listening s then drop_promise (handleMessage valid s json) else s)"

text \<open>
  The editor does its oldest job. For an edit: the text of the document changes, the edit
  is recorded, the change event of the edit goes to the listener, and then what the
  requester left to do is done. For the shown document: an editor of the document is
  visible, and the callback of \<^verbatim>\<open>handleInitialMessage\<close> requests the insertion of the text
  the CRDT has by then at the start of the document.
\<close>

definition applyEdit :: "Edit \<Rightarrow> Client \<Rightarrow> ContentChange \<times> Client" where
  "applyEdit ed s =
     (case ed of
        EditInsert pos str \<Rightarrow>
          (let off = offsetAt (doc_text s) pos;
               at = positionAt (doc_text s) (int off)
           in (\<lparr>change_start = at, change_end = at, rangeOffset = off, rangeLength = 0,
                 change_text = str\<rparr>,
               s\<lparr>doc_text := take off (doc_text s) @ str @ drop off (doc_text s),
                 edits := edits s @ [ed]\<rparr>))
      | EditDelete p q \<Rightarrow>
          (let a = offsetAt (doc_text s) p;
               b = offsetAt (doc_text s) q
           in (\<lparr>change_start = positionAt (doc_text s) (int a),
                 change_end = positionAt (doc_text s) (int b),
                 rangeOffset = a, rangeLength = int b - int a, change_text = []\<rparr>,
               s\<lparr>doc_text := take a (doc_text s) @ drop b (doc_text s),
                 edits := edits s @ [ed]\<rparr>)))"

fun runContinuation :: "Continuation \<Rightarrow> Client \<Rightarrow> Client" where
  "runContinuation ClearMarker s = s\<lparr>activeEdit := None\<rparr>"
| "runContinuation Done s = s"

definition editorStep :: "validator \<Rightarrow> generator \<Rightarrow> Client \<Rightarrow> Client" where
  "editorStep valid gen s =
     (case pending s of
        [] \<Rightarrow> s
      | ShowDocument # rest \<Rightarrow>
          s\<lparr>editor_visible := True,
            pending := rest @
              [Apply (EditInsert \<lparr>line = 0, character = 0\<rparr> (CRDT_asString (crdt s))) Done]\<rparr>
      | Apply ed k # rest \<Rightarrow>
          (case applyEdit ed (s\<lparr>pending := rest\<rparr>) of
             (change, s1) \<Rightarrow>
               runContinuation k
                 (onDidChangeTextDocument valid gen s1
                    \<lparr>ev_document = document s1, contentChanges = [change]\<rparr>)))"

text \<open>The constructor; \<open>txt\<close> and \<open>vis\<close> are the content of the document and whether an
  editor shows it. Neither \<^verbatim>\<open>setupHost()\<close> nor \<^verbatim>\<open>setupGuest()\<close> is awaited.\<close>

definition Client_new :: "string \<Rightarrow> bool \<Rightarrow> nat \<Rightarrow> string \<Rightarrow> bool \<Rightarrow> Client" where
  "Client_new url host doc txt vis =
     (let s0 = \<lparr>isHost = host, clientId = None, bufferName = None, buffer = None,
                 crdt = CRDT_new, document = doc, activeEdit = None, ws_sent = [],
                 ws_closed = False, ws_listening = False, subscribed = False,
                 validated = [], errors = [], unhandled = [], doc_text = txt,
                 editor_visible = vis, edits = [], pending = []\<rparr>;
          s1 = drop_promise (if host then setupHost s0 else setupGuest s0)
      in s1\<lparr>subscribed := True\<rparr>)"

text \<open>\<^verbatim>\<open>Client.create\<close> with the registry \<^verbatim>\<open>Client.sockets\<close>; the result is the promise it
  returns, \<open>Inl\<close> when rejected.\<close>

definition Client_create ::
  "(nat \<rightharpoonup> Client) \<Rightarrow> nat \<Rightarrow> string \<Rightarrow> bool \<Rightarrow> string \<Rightarrow> bool
     \<Rightarrow> error + (nat \<rightharpoonup> Client) \<times> Client" where
  "Client_create sockets doc url host txt vis =
     (let client = Client_new url host doc txt vis
      in Inr (sockets(doc \<mapsto> client), client))"

section \<open>What a local edit may change\<close>

text \<open>Between two states of a session, \<open>local_step\<close> says that only the CRDT, the log of the
  validator and the frames sent differ, the validator having been called on some further
  messages \<open>vs\<close> and the socket having received those of \<open>vs\<close> that passed.\<close>

definition local_step :: "validator \<Rightarrow> Client \<Rightarrow> Client \<Rightarrow> bool" where
  "local_step valid s s' =
     (\<exists>vs. s' = s\<lparr>crdt := crdt s', validated := validated s @ vs,
                    ws_sent := ws_sent s @ filter valid vs\<rparr>)"

section \<open>What is validated and what is sent\<close>

text \<open>Between two states of a session, \<open>sends_validated\<close> says that the validator was called
  on some further messages \<open>vs\<close>, and that the socket received those of \<open>vs\<close> that passed,
  in the same order, and nothing else.\<close>

definition sends_validated :: "validator \<Rightarrow> Client \<Rightarrow> Client \<Rightarrow> bool" where
  "sends_validated valid s s' =
     (\<exists>vs. validated s' = validated s @ vs \<and> ws_sent s' = ws_sent s @ filter valid vs)"

section \<open>An example session\<close>

text \<open>A guest whose snapshot is the one line \<open>abc\<close>: the index holds the two sentinels and
  the PIDs of the three characters.\<close>

definition docStart :: Pid where "docStart = [(0, 0)]"
definition lineStart :: Pid where "lineStart = [(1, 0)]"
definition pidA :: Pid where "pidA = [(10, 1)]"
definition pidB :: Pid where "pidB = [(20, 1)]"
definition pidC :: Pid where "pidC = [(30, 1)]"

definition accept_all :: validator where
  "accept_all m = True"

text \<open>A validator that rejects the messages of unknown tag.\<close>

definition reject_other :: validator where
  "reject_other m = (case m of MSG_other n \<Rightarrow> False | _ \<Rightarrow> True)"

text \<open>A generator for the examples. When the first levels of its bounds leave a gap of at
  least 2 it answers with the lowest digit strictly inside the gap, one of the digits that
  section 4.1 of the specification lets \<^verbatim>\<open>generate\<close> pick; otherwise it goes one level
  deeper below the lower bound. An absent bound counts as digit 0 below and as no bound
  above.\<close>

definition gen_lowest :: generator where
  "gen_lowest cid prev nxt =
     (let site = (case cid of Some n \<Rightarrow> n | None \<Rightarrow> 0);
          lo = (case prev of Some ((d, _) # _) \<Rightarrow> d | _ \<Rightarrow> 0);
          hi = (case nxt of Some ((d, _) # _) \<Rightarrow> d | _ \<Rightarrow> lo + 2)
      in if lo + 2 \<le> hi then [(Suc lo, site)]
         else (case prev of Some p \<Rightarrow> p | None \<Rightarrow> []) @ [(1, site)])"

definition guest_abc :: Client where
  "guest_abc =
     (Client_new [] False 7 ''abc'' True)
       \<lparr>clientId := Some 2, buffer := Some (1, 1),
        crdt := CRDT_initialize CRDT_new 1 [docStart, lineStart, pidA, pidB, pidC] [''abc'']\<rparr>"

definition fresh_guest :: Client where
  "fresh_guest = Client_new [] False 7 [] True"

definition foreign_event :: ChangeEvent where
  "foreign_event =
     \<lparr>ev_document = 8,
      contentChanges = [\<lparr>change_start = \<lparr>line = 0, character = 0\<rparr>,
                         change_end = \<lparr>line = 0, character = 0\<rparr>,
                         rangeOffset = 0, rangeLength = 0, change_text = ''z''\<rparr>]\<rparr>"

text \<open>Three local edits of that document, as the editor reports them: typing \<open>x\<close>
  between \<open>a\<close> and \<open>b\<close>, replacing \<open>b\<close> by \<open>x\<close>, and deleting the character at
  offset 1.\<close>

definition change_x_at_1 :: ContentChange where
  "change_x_at_1 =
     \<lparr>change_start = \<lparr>line = 0, character = 1\<rparr>, change_end = \<lparr>line = 0, character = 1\<rparr>,
      rangeOffset = 1, rangeLength = 0, change_text = ''x''\<rparr>"

definition insert_x_at_1 :: ChangeEvent where
  "insert_x_at_1 = \<lparr>ev_document = 7, contentChanges = [change_x_at_1]\<rparr>"

definition replace_b_by_x :: ChangeEvent where
  "replace_b_by_x =
     \<lparr>ev_document = 7,
      contentChanges = [\<lparr>change_start = \<lparr>line = 0, character = 1\<rparr>,
                         change_end = \<lparr>line = 0, character = 2\<rparr>,
                         rangeOffset = 1, rangeLength = 1, change_text = ''x''\<rparr>]\<rparr>"

definition delete_at_1 :: ChangeEvent where
  "delete_at_1 =
     \<lparr>ev_document = 7,
      contentChanges = [\<lparr>change_start = \<lparr>line = 0, character = 1\<rparr>,
                         change_end = \<lparr>line = 0, character = 2\<rparr>,
                         rangeOffset = 1, rangeLength = 1, change_text = []\<rparr>]\<rparr>"

text \<open>The guest after a remote DELETE of \<open>b\<close>, once the editor has applied the deletion and
  raised its change event.\<close>

definition after_remote_delete :: Client where
  "after_remote_delete =
     editorStep accept_all gen_lowest
       (handleRemoteDelete guest_abc (Some pidB) (Some CHR ''b'') (Some 1))"


section \<open>Properties\<close>

subsection \<open>Positions and offsets of the document\<close>








lemma guest_abc_fields:
  "editor_visible guest_abc" "doc_text guest_abc = ''abc''" "edits guest_abc = []"
  "errors guest_abc = []" "document guest_abc = 7" "subscribed guest_abc"
  "sortedPids (crdt guest_abc) = [docStart, lineStart, pidA, pidB, pidC]"
  "pending guest_abc = []" "activeEdit guest_abc = None" "ws_sent guest_abc = []"
  "clientId guest_abc = Some 2" "buffer guest_abc = Some (1, 1)"
  by (simp_all add: guest_abc_def Client_new_def setupGuest_def drop_promise_def
      CRDT_initialize_def)


lemma pos_walk_numeral:
  "pos_walk (x # xs) (numeral n) l k =
     (if x = CHR 0x0A then pos_walk xs (pred_numeral n) (Suc l) 0
      else pos_walk xs (pred_numeral n) l (Suc k))"
  by (simp add: numeral_eq_Suc)

lemma off_walk_numeral:
  "off_walk (x # xs) 0 (numeral n) =
     (if x = CHR 0x0A then 0 else Suc (off_walk xs 0 (pred_numeral n)))"
  "off_walk (x # xs) (numeral m) k =
     Suc (if x = CHR 0x0A then off_walk xs (pred_numeral m) k else off_walk xs (numeral m) k)"
  by (simp_all add: numeral_eq_Suc)

subsection \<open>What a local edit changes\<close>

lemma local_step_refl: "local_step valid s s"
proof -
  have "s = s\<lparr>crdt := crdt s, validated := validated s @ [],
                ws_sent := ws_sent s @ filter valid []\<rparr>"
    by simp
  then show ?thesis unfolding local_step_def by blast
qed

lemma local_step_trans:
  assumes "local_step valid s s1" and "local_step valid s1 s2"
  shows "local_step valid s s2"
proof -
  from assms obtain vs ws where
    a: "s1 = s\<lparr>crdt := crdt s1, validated := validated s @ vs,
                 ws_sent := ws_sent s @ filter valid vs\<rparr>" and
    b: "s2 = s1\<lparr>crdt := crdt s2, validated := validated s1 @ ws,
                  ws_sent := ws_sent s1 @ filter valid ws\<rparr>"
    unfolding local_step_def by blast
  have v: "validated s1 = validated s @ vs" and w: "ws_sent s1 = ws_sent s @ filter valid vs"
    by (subst a, simp)+
  have "s2 = s\<lparr>crdt := crdt s2, validated := validated s @ (vs @ ws),
                 ws_sent := ws_sent s @ filter valid (vs @ ws)\<rparr>"
    by (subst b, subst a) (simp add: v w)
  then show ?thesis unfolding local_step_def by blast
qed

lemma local_step_crdt: "local_step valid s (s\<lparr>crdt := c\<rparr>)"
proof -
  have "s\<lparr>crdt := c\<rparr> = s\<lparr>crdt := crdt (s\<lparr>crdt := c\<rparr>), validated := validated s @ [],
                ws_sent := ws_sent s @ filter valid []\<rparr>"
    by simp
  then show ?thesis unfolding local_step_def by blast
qed

lemma local_step_sendMessage: "local_step valid s (snd (sendMessage valid m s))"
proof -
  have "snd (sendMessage valid m s) =
      s\<lparr>crdt := crdt (snd (sendMessage valid m s)), validated := validated s @ [m],
        ws_sent := ws_sent s @ filter valid [m]\<rparr>"
    by (simp add: sendMessage_def Let_def)
  then show ?thesis unfolding local_step_def by blast
qed

lemma local_stepD:
  assumes "local_step valid s s'"
  shows "sends_validated valid s s'"
    and "activeEdit s' = activeEdit s" and "doc_text s' = doc_text s"
    and "edits s' = edits s" and "pending s' = pending s"
    and "document s' = document s" and "subscribed s' = subscribed s"
    and "clientId s' = clientId s" and "buffer s' = buffer s"
    and "errors s' = errors s" and "ws_closed s' = ws_closed s"
    and "editor_visible s' = editor_visible s" and "unhandled s' = unhandled s"
proof -
  from assms obtain vs where
    a: "s' = s\<lparr>crdt := crdt s', validated := validated s @ vs,
                 ws_sent := ws_sent s @ filter valid vs\<rparr>"
    unfolding local_step_def by blast
  have "validated s' = validated s @ vs" "ws_sent s' = ws_sent s @ filter valid vs"
    by (subst a, simp)+
  then show "sends_validated valid s s'"
    unfolding sends_validated_def by blast
  show "activeEdit s' = activeEdit s" "doc_text s' = doc_text s"
    "edits s' = edits s" "pending s' = pending s"
    "document s' = document s" "subscribed s' = subscribed s"
    "clientId s' = clientId s" "buffer s' = buffer s"
    "errors s' = errors s" "ws_closed s' = ws_closed s"
    "editor_visible s' = editor_visible s" "unhandled s' = unhandled s"
    by (subst a, simp)+
qed

lemma local_step_insertChars:
  "local_step valid s (snd (insertChars valid gen change i cs s))"
proof (induction cs arbitrary: i s)
  case Nil
  show ?case by (simp add: local_step_refl)
next
  case (Cons c cs)
  let ?p = "gen (clientId s) (previousPid s change i) (nextPid s change i)"
  let ?s1 = "s\<lparr>crdt := fst (CRDT_insert (crdt s) ?p c)\<rparr>"
  let ?s2 = "snd (sendInsert valid ?p c ?s1)"
  have "local_step valid ?s1 ?s2"
    unfolding sendInsert_def by (rule local_step_sendMessage)
  then have a: "local_step valid s ?s2"
    by (rule local_step_trans [OF local_step_crdt])
  have "snd (insertChars valid gen change i (c # cs) s)
      = snd (insertChars valid gen change (Suc i) cs ?s2)"
    by (simp add: Let_def split: prod.splits)
  with local_step_trans [OF a Cons.IH] show ?case by simp
qed

lemma local_step_insertFromContentChange:
  "local_step valid s (snd (insertFromContentChange valid gen change s))"
  by (simp add: insertFromContentChange_def local_step_insertChars)

lemma local_step_sendDeletes: "local_step valid s (snd (sendDeletes valid ps s))"
proof (induction ps arbitrary: s)
  case Nil
  show ?case by (simp add: local_step_refl)
next
  case (Cons p ps)
  let ?s1 = "snd (sendDelete valid p (charOf (crdt s) p) s)"
  have a: "local_step valid s ?s1"
    by (simp add: sendDelete_def local_step_sendMessage)
  have "snd (sendDeletes valid (p # ps) s) = snd (sendDeletes valid ps ?s1)"
    by (simp add: Let_def split: prod.splits)
  with local_step_trans [OF a Cons.IH] show ?case by simp
qed

lemma local_step_startChange:
  "local_step valid s (snd (snd (startChange valid gen change (err, waiting, s))))"
proof -
  have d: "local_step valid s (snd (deleteFromContentChange_start valid change s))"
    using local_step_sendDeletes [of valid s "deletedPids s change"]
    by (simp add: deleteFromContentChange_start_def Let_def case_prod_beta)
  show ?thesis
    using d local_step_insertFromContentChange [of valid s gen change]
    by (simp add: startChange_def local_step_refl case_prod_beta)
qed

lemma local_step_fold_startChange:
  "local_step valid (snd (snd acc)) (snd (snd (fold (startChange valid gen) changes acc)))"
proof (induction changes arbitrary: acc)
  case Nil
  show ?case by (simp add: local_step_refl)
next
  case (Cons change changes)
  obtain err waiting s where acc: "acc = (err, waiting, s)"
    by (cases acc) auto
  from local_step_trans [OF local_step_startChange Cons.IH]
  show ?case by (simp add: acc)
qed

lemma local_step_fold_resume:
  "local_step valid s (fold deleteFromContentChange_resume ds s)"
proof (induction ds arbitrary: s)
  case Nil
  show ?case by (simp add: local_step_refl)
next
  case (Cons d ds)
  from local_step_trans [OF local_step_crdt Cons.IH]
  show ?case by (simp add: deleteFromContentChange_resume_def)
qed

lemma local_step_fold_resumeInsert:
  "local_step valid (snd acc) (snd (fold (resumeInsert valid gen) ds acc))"
proof (induction ds arbitrary: acc)
  case Nil
  show ?case by (simp add: local_step_refl)
next
  case (Cons d ds)
  obtain err s where acc: "acc = (err, s)"
    by (cases acc) auto
  have "local_step valid s (snd (resumeInsert valid gen d (err, s)))"
    using local_step_insertFromContentChange [of valid s gen "fst d"]
    by (simp add: resumeInsert_def case_prod_beta)
  from local_step_trans [OF this Cons.IH]
  show ?case by (simp add: acc)
qed

lemma local_step_handleTextChange:
  "local_step valid s (snd (handleTextChange valid gen s e))"
proof (cases "ev_document e \<noteq> document s")
  case True
  then show ?thesis by (simp add: handleTextChange_def local_step_refl)
next
  case False
  obtain err waiting s1 where
    f: "fold (startChange valid gen) (contentChanges e) (None, [], s) = (err, waiting, s1)"
    by (cases "fold (startChange valid gen) (contentChanges e) (None, [], s)") auto
  have a: "local_step valid s s1"
    using local_step_fold_startChange [of valid "(None, [], s)" gen "contentChanges e"]
    by (simp add: f)
  let ?s2 = "fold deleteFromContentChange_resume waiting s1"
  have b: "local_step valid s1 ?s2"
    by (rule local_step_fold_resume)
  let ?ready = "sort_key (\<lambda>d. length (snd d)) (filter (\<lambda>d. rejected d = None) waiting)"
  have c: "local_step valid ?s2 (snd (fold (resumeInsert valid gen) ?ready (err, ?s2)))"
    using local_step_fold_resumeInsert [of valid "(err, ?s2)" gen ?ready] by simp
  from local_step_trans [OF local_step_trans [OF a b] c] False
  show ?thesis by (simp add: handleTextChange_def f)
qed

subsection \<open>What is validated and what is sent\<close>

lemma sv_refl: "sends_validated valid s s"
  by (simp add: sends_validated_def)

lemma sv_same:
  "validated s' = validated s \<Longrightarrow> ws_sent s' = ws_sent s \<Longrightarrow> sends_validated valid s s'"
  by (simp add: sends_validated_def)

lemma sv_start:
  "validated s1 = validated s \<Longrightarrow> ws_sent s1 = ws_sent s \<Longrightarrow>
   sends_validated valid s1 s2 \<Longrightarrow> sends_validated valid s s2"
  by (simp add: sends_validated_def)

lemma sv_finish:
  "validated s2' = validated s2 \<Longrightarrow> ws_sent s2' = ws_sent s2 \<Longrightarrow>
   sends_validated valid s s2 \<Longrightarrow> sends_validated valid s s2'"
  by (simp add: sends_validated_def)

lemma sendMessage_log:
  "validated (snd (sendMessage valid m s)) = validated s @ [m]"
  "ws_sent (snd (sendMessage valid m s)) = ws_sent s @ filter valid [m]"
  "fst (sendMessage valid m s) = (if valid m then None else Some ValidationError)"
  by (simp_all add: sendMessage_def Let_def)

lemma sv_sendMessage: "sends_validated valid s (snd (sendMessage valid m s))"
  unfolding sends_validated_def using sendMessage_log(1,2) by blast

lemma drop_promise_log:
  "validated (drop_promise r) = validated (snd r)" "ws_sent (drop_promise r) = ws_sent (snd r)"
  by (cases r; cases "fst r"; simp add: drop_promise_def)+

lemma sv_handleTextChange:
  "sends_validated valid s (snd (handleTextChange valid gen s e))"
  by (rule local_stepD(1) [OF local_step_handleTextChange])

lemma sv_onDidChangeTextDocument:
  "sends_validated valid s (onDidChangeTextDocument valid gen s e)"
proof (cases "subscribed s")
  case True
  then show ?thesis
    using sv_finish [OF drop_promise_log sv_handleTextChange [of valid s gen e]]
    by (simp add: onDidChangeTextDocument_def)
next
  case False
  then show ?thesis by (simp add: onDidChangeTextDocument_def sv_refl)
qed

lemma handleRemoteInsert_log:
  "validated (snd (handleRemoteInsert s pid c cid)) = validated s"
  "ws_sent (snd (handleRemoteInsert s pid c cid)) = ws_sent s"
  by (simp_all add: handleRemoteInsert_def editor_def close_def Let_def case_prod_beta)

lemma handleRemoteDelete_log:
  "validated (handleRemoteDelete s pid c cid) = validated s"
  "ws_sent (handleRemoteDelete s pid c cid) = ws_sent s"
  by (simp_all add: handleRemoteDelete_def editor_def close_def Let_def case_prod_beta)

lemma handleText_log:
  "validated (snd (handleText s op cid)) = validated s"
  "ws_sent (snd (handleText s op cid)) = ws_sent s"
  by (cases op; simp add: handleText_def drop_promise_log handleRemoteInsert_log
      handleRemoteDelete_log)+

lemma sv_handleAvailableMessage:
  "sends_validated valid s (snd (handleAvailableMessage valid s isFirst cid share))"
proof -
  let ?s1 = "if isFirst \<and> \<not> isHost s
             then close (s\<lparr>errors := errors s @ [''Error: guest was first to connect'']\<rparr>)
             else s"
  let ?s2 = "if share
             then close (?s1\<lparr>errors := errors ?s1 @ [''Error: session share not implemented'']\<rparr>)
             else ?s1"
  let ?s3 = "?s2\<lparr>clientId := Some cid\<rparr>"
  have log: "validated ?s3 = validated s" "ws_sent ?s3 = ws_sent s"
    by (simp_all add: close_def)
  have req: "sends_validated valid s (drop_promise (requestInitialBuffer valid ?s3))"
    by (rule sv_start [OF log]) (rule sv_finish [OF drop_promise_log],
        simp add: requestInitialBuffer_def sv_sendMessage)
  have same: "sends_validated valid s ?s3"
    by (rule sv_same [OF log])
  show ?thesis
    using req same by (simp add: handleAvailableMessage_def Let_def)
qed

lemma sv_handleMessage:
  "sends_validated valid (s\<lparr>validated := validated s @ [json]\<rparr>)
     (snd (handleMessage valid s json))"
proof -
  let ?s0 = "s\<lparr>validated := validated s @ [json]\<rparr>"
  have t: "sends_validated valid ?s0 (drop_promise (handleText ?s0 op cid))" for op cid
    by (rule sv_same) (simp_all only: drop_promise_log handleText_log)
  have a: "sends_validated valid ?s0
      (drop_promise (handleAvailableMessage valid ?s0 isFirst cid share))" for isFirst cid share
    by (rule sv_finish [OF drop_promise_log sv_handleAvailableMessage])
  have i: "sends_validated valid ?s0
      (drop_promise (handleInitialMessage ?s0 name buf uids lines))" for name buf uids lines
    by (rule sv_same) (simp_all add: drop_promise_log handleInitialMessage_def)
  have u: "sends_validated valid ?s0 (?s0\<lparr>errors := errors ?s0 @ [''Received unhandled message'']\<rparr>)"
    by (rule sv_same) simp_all
  show ?thesis
  proof (cases "valid json")
    case False
    then show ?thesis by (simp add: handleMessage_def Let_def sv_refl)
  next
    case True
    then show ?thesis
      using t a i u by (cases json) (simp_all add: handleMessage_def Let_def)
  qed
qed

lemma applyEdit_log:
  "validated (snd (applyEdit ed s)) = validated s" "ws_sent (snd (applyEdit ed s)) = ws_sent s"
  by (cases ed; simp add: applyEdit_def Let_def)+

lemma runContinuation_log:
  "validated (runContinuation k s) = validated s" "ws_sent (runContinuation k s) = ws_sent s"
  by (cases k; simp)+

lemma sv_editorStep: "sends_validated valid s (editorStep valid gen s)"
proof (cases "pending s")
  case Nil
  then show ?thesis by (simp add: editorStep_def sv_refl)
next
  case (Cons job rest)
  show ?thesis
  proof (cases job)
    case ShowDocument
    with Cons show ?thesis by (simp add: editorStep_def sv_same)
  next
    case (Apply ed k)
    let ?s1 = "snd (applyEdit ed (s\<lparr>pending := rest\<rparr>))"
    let ?ev = "\<lparr>ev_document = document ?s1,
                contentChanges = [fst (applyEdit ed (s\<lparr>pending := rest\<rparr>))]\<rparr>"
    have "sends_validated valid s (onDidChangeTextDocument valid gen ?s1 ?ev)"
      by (rule sv_start [OF _ _ sv_onDidChangeTextDocument]) (simp_all add: applyEdit_log)
    then have "sends_validated valid s
        (runContinuation k (onDidChangeTextDocument valid gen ?s1 ?ev))"
      by (rule sv_finish [OF runContinuation_log])
    with Cons Apply show ?thesis
      by (simp add: editorStep_def case_prod_beta)
  qed
qed

subsection \<open>Bounds, siteId and marker in general\<close>

text \<open>A change event leaves the document, the editor's jobs and the marker as they are. The
  first character of an inserted text always gets the first PID of the index as its lower
  bound and the last character the last PID as its upper bound; an AVAILABLE message
  always stores the siteId; a remote DELETE always leaves a marker set.\<close>

lemma drop_promise_fields:
  "doc_text (drop_promise r) = doc_text (snd r)" "edits (drop_promise r) = edits (snd r)"
  "pending (drop_promise r) = pending (snd r)" "activeEdit (drop_promise r) = activeEdit (snd r)"
  "crdt (drop_promise r) = crdt (snd r)"
  by (cases r; cases "fst r"; simp add: drop_promise_def)+

lemma onDidChangeTextDocument_fields:
  "doc_text (onDidChangeTextDocument valid gen s e) = doc_text s"
  "edits (onDidChangeTextDocument valid gen s e) = edits s"
  "pending (onDidChangeTextDocument valid gen s e) = pending s"
  "activeEdit (onDidChangeTextDocument valid gen s e) = activeEdit s"
  using local_stepD [OF local_step_handleTextChange [of valid s gen e]]
  by (simp_all add: onDidChangeTextDocument_def drop_promise_fields)

lemma bounds_of_first_and_last_character:
  "previousPid s change 0 = firstPid (crdt s)"
  "nextPid s change (length (change_text change) - 1) = lastPid (crdt s)"
  by (simp_all add: previousPid_def nextPid_def)

lemma handleAvailableMessage_stores_clientId:
  "clientId (snd (handleAvailableMessage valid s isFirst cid share)) = Some cid"
  by (simp add: handleAvailableMessage_def Let_def close_def requestInitialBuffer_def
      sendMessage_def drop_promise_def)

lemma handleTextChange_activeEdit:
  "activeEdit (snd (handleTextChange valid gen s e)) = activeEdit s"
  by (rule local_stepD(2) [OF local_step_handleTextChange])

lemma handleRemoteDelete_activeEdit:
  "activeEdit (handleRemoteDelete s pid c cid) \<noteq> None"
  by (simp add: handleRemoteDelete_def editor_def close_def Let_def case_prod_beta)

subsection \<open>Evaluating the example session\<close>

lemmas local_edit_defs = handleTextChange_def startChange_def resumeInsert_def
  insertFromContentChange_def deleteFromContentChange_start_def
  deleteFromContentChange_resume_def rejected_def
  isInsertEcho_def isDeleteEcho_def previousPid_def nextPid_def sendInsert_def sendDelete_def
  sendMessage_def first_error_def deletedPids_def charOf_def deletePid_def
  CRDT_pidAt_def CRDT_charAt_def CRDT_insert_def CRDT_delete_def CRDT_asString_def
  firstPid_def lastPid_def accept_all_def gen_lowest_def map_filter_simps Let_def

lemmas session_defs = guest_abc_def Client_new_def setupGuest_def drop_promise_def
  CRDT_initialize_def CRDT_new_def docStart_def lineStart_def pidA_def pidB_def pidC_def

lemma remote_delete_state:
  "handleRemoteDelete guest_abc (Some pidB) (Some CHR ''b'') (Some 1) =
     guest_abc\<lparr>crdt := fst (CRDT_delete (crdt guest_abc) pidB),
       activeEdit := Some \<lparr>kind = Delete, range_start = \<lparr>line = 0, character = 1\<rparr>,
                            range_end = \<lparr>line = 0, character = 2\<rparr>, edit_text = []\<rparr>,
       pending := [Apply (EditDelete \<lparr>line = 0, character = 1\<rparr> \<lparr>line = 0, character = 2\<rparr>)
                     Done]\<rparr>"
  by (simp add: handleRemoteDelete_def deletePid_def CRDT_delete_def editor_def
      positionAt_def translate_def pos_walk_numeral session_defs Let_def)

lemma after_remote_delete_state:
  "after_remote_delete =
     guest_abc\<lparr>crdt := fst (CRDT_delete (crdt guest_abc) pidB),
       activeEdit := Some \<lparr>kind = Delete, range_start = \<lparr>line = 0, character = 1\<rparr>,
                            range_end = \<lparr>line = 0, character = 2\<rparr>, edit_text = []\<rparr>,
       doc_text := ''ac'',
       edits := [EditDelete \<lparr>line = 0, character = 1\<rparr> \<lparr>line = 0, character = 2\<rparr>],
       pending := []\<rparr>"
  unfolding after_remote_delete_def remote_delete_state
  by (simp add: editorStep_def applyEdit_def onDidChangeTextDocument_def handleTextChange_def
      startChange_def isDeleteEcho_def drop_promise_def positionAt_def offsetAt_def
      pos_walk_numeral off_walk_numeral guest_abc_def Client_new_def setupGuest_def Let_def)

subsection \<open>Events of other documents\<close>

text \<open>
  C9. A text-change event whose document is not the session's document leaves the whole
  session unchanged: \<^verbatim>\<open>handleTextChange\<close> resolves at once, the CRDT is not touched, no PID
  is generated and nothing is sent.
\<close>

theorem handleTextChange_other_document:
  assumes "ev_document e \<noteq> document s"
  shows "handleTextChange valid gen s e = (None, s)
         \<and> onDidChangeTextDocument valid gen s e = s"
  using assms by (simp add: handleTextChange_def onDidChangeTextDocument_def drop_promise_def)

theorem handleTextChange_other_document_witness:
  "ev_document foreign_event \<noteq> document guest_abc
   \<and> handleTextChange accept_all gen_lowest guest_abc foreign_event = (None, guest_abc)
   \<and> onDidChangeTextDocument accept_all gen_lowest guest_abc foreign_event = guest_abc"
proof -
  have d: "ev_document foreign_event \<noteq> document guest_abc"
    by (simp add: foreign_event_def guest_abc_def Client_new_def setupGuest_def
        drop_promise_def)
  from handleTextChange_other_document [OF d, of accept_all gen_lowest] d
  show ?thesis by simp
qed

subsection \<open>The sender of a remote operation\<close>

text \<open>
  C10. Applying a remote TEXT operation does not depend on the clientId of its sender: two
  operations that agree on PID and character give the same session, whatever the two
  senders, hence the same CRDT, marker and editor edit.
\<close>

theorem handleText_sender_independent:
  "handleText s op cid = handleText s op cid'
   \<and> handleRemoteInsert s pid c cid = handleRemoteInsert s pid c cid'
   \<and> handleRemoteDelete s dpid dc cid = handleRemoteDelete s dpid dc cid'"
proof -
  have ins: "handleRemoteInsert s p x cid = handleRemoteInsert s p x cid'" for p x
    by (simp add: handleRemoteInsert_def)
  have del: "handleRemoteDelete s p x cid = handleRemoteDelete s p x cid'" for p x
    by (simp add: handleRemoteDelete_def)
  have "handleText s op cid = handleText s op cid'"
    by (cases op) (simp_all add: handleText_def ins del)
  with ins del show ?thesis by simp
qed

subsection \<open>The AVAILABLE message\<close>

text \<open>
  C3. On an AVAILABLE message with \<open>isFirst\<close> true for a guest, or with \<open>sessionShare\<close>
  true, the connection is closed, and the claim is that then the assigned siteId is not
  stored and no REQUEST is sent. The method does not return after \<^verbatim>\<open>this.close()\<close>: in both
  fatal cases the guest shows the error, closes the socket, and then stores the siteId 5
  and hands a REQUEST to the closed socket all the same.
\<close>

theorem handleAvailableMessage_fatal_continues:
  "handleAvailableMessage accept_all fresh_guest True 5 False =
     (None, fresh_guest\<lparr>clientId := Some 5, ws_sent := [MSG_REQUEST], ws_closed := True,
                         ws_listening := False, subscribed := False,
                         validated := [MSG_REQUEST],
                         errors := [''Error: guest was first to connect'']\<rparr>)
   \<and> handleAvailableMessage accept_all fresh_guest False 5 True =
     (None, fresh_guest\<lparr>clientId := Some 5, ws_sent := [MSG_REQUEST], ws_closed := True,
                         ws_listening := False, subscribed := False,
                         validated := [MSG_REQUEST],
                         errors := [''Error: session share not implemented'']\<rparr>)"
  by (simp add: handleAvailableMessage_def fresh_guest_def Client_new_def setupGuest_def
      drop_promise_def close_def requestInitialBuffer_def sendMessage_def accept_all_def)

subsection \<open>Starting a host\<close>

text \<open>
  C8. Starting a session in the host role is claimed to fail at once and explicitly. The
  \<^verbatim>\<open>throw\<close> of \<^verbatim>\<open>setupHost\<close> rejects a promise that the constructor never awaits:
  \<^verbatim>\<open>Client.create\<close> resolves with a client that is registered for its document and
  subscribed to the editor's change events, its socket neither closed nor listened to; the
  error is left as an unhandled rejection.
\<close>

theorem Client_create_host_resolves:
  "(case Client_create Map.empty 7 [] True ''abc'' True of
      Inl err \<Rightarrow> False
    | Inr (sockets, client) \<Rightarrow>
        sockets 7 = Some client \<and> isHost client \<and> subscribed client
        \<and> \<not> ws_closed client \<and> \<not> ws_listening client
        \<and> unhandled client = [NotImplemented] \<and> errors client = [])
   \<and> fst (setupHost fresh_guest) = Some NotImplemented"
  by (simp add: Client_create_def Client_new_def setupHost_def drop_promise_def Let_def)

subsection \<open>Remote operations without an editor\<close>

text \<open>
  C7. When a remote operation is to be applied and no visible editor shows the session's
  document, nothing is applied to the editor surface (its text, the list of edits and the
  editor's jobs are unchanged), the error is shown to the user, and the connection is
  closed; this holds for a remote INSERT and for a remote DELETE.
\<close>

theorem remote_apply_without_editor:
  assumes "\<not> editor_visible s"
  shows "doc_text (snd (handleRemoteInsert s pid c cid)) = doc_text s
       \<and> edits (snd (handleRemoteInsert s pid c cid)) = edits s
       \<and> pending (snd (handleRemoteInsert s pid c cid)) = pending s
       \<and> errors (snd (handleRemoteInsert s pid c cid))
           = errors s @ [''Could not find editor for document'']
       \<and> ws_closed (snd (handleRemoteInsert s pid c cid))
       \<and> doc_text (handleRemoteDelete s dpid dc cid) = doc_text s
       \<and> edits (handleRemoteDelete s dpid dc cid) = edits s
       \<and> pending (handleRemoteDelete s dpid dc cid) = pending s
       \<and> errors (handleRemoteDelete s dpid dc cid)
           = errors s @ [''Could not find editor for document'']
       \<and> ws_closed (handleRemoteDelete s dpid dc cid)"
  using assms
  by (simp add: handleRemoteInsert_def handleRemoteDelete_def editor_def close_def Let_def
      case_prod_beta)

theorem remote_apply_without_editor_witness:
  "\<not> editor_visible (guest_abc\<lparr>editor_visible := False\<rparr>)
   \<and> doc_text (snd (handleRemoteInsert (guest_abc\<lparr>editor_visible := False\<rparr>)
        [(25, 3)] CHR ''x'' (Some 3))) = ''abc''
   \<and> ws_closed (handleRemoteDelete (guest_abc\<lparr>editor_visible := False\<rparr>) (Some pidB)
        (Some CHR ''b'') (Some 3))"
  using remote_apply_without_editor [where s = "guest_abc\<lparr>editor_visible := False\<rparr>"
      and pid = "[(25, 3)]" and c = "CHR ''x''"
      and cid = "Some 3" and dpid = "Some pidB" and dc = "Some CHR ''b''"]
  by (simp add: guest_abc_fields)

subsection \<open>Applying a remote INSERT\<close>




subsection \<open>The bounds of a local insertion\<close>

text \<open>
  C1. For a pure insertion the claim takes \<open>prev\<close> to be the PID at \<open>rangeOffset - 1\<close> (the
  document start only at position 0) and \<open>next\<close> the PID at the insertion point (the
  document end only at the end). The method decides by the index of the character within
  the inserted text, not by the offset: the first character always gets the first PID of
  the index as \<open>prev\<close>, the last character always the last PID as \<open>next\<close>. Typing \<open>x\<close>
  between \<open>a\<close> and \<open>b\<close> of \<open>abc\<close> generates between the document start and the PID of
  \<open>c\<close>, not between the PIDs of \<open>a\<close> and \<open>b\<close>; with a generator that picks the lowest
  digit the CRDT then reads \<open>xabc\<close> while the editor shows \<open>axbc\<close>.
\<close>

theorem insert_bounds_ignore_offset:
  "previousPid (guest_abc\<lparr>doc_text := ''axbc''\<rparr>) change_x_at_1 0 = Some docStart
   \<and> CRDT_pidAt (crdt guest_abc) (rangeOffset change_x_at_1 - 1) = Some pidA
   \<and> nextPid (guest_abc\<lparr>doc_text := ''axbc''\<rparr>) change_x_at_1 0 = Some pidC
   \<and> CRDT_pidAt (crdt guest_abc) (rangeOffset change_x_at_1) = Some pidB
   \<and> ws_sent (snd (handleTextChange accept_all gen_lowest
         (guest_abc\<lparr>doc_text := ''axbc''\<rparr>) insert_x_at_1))
       = [MSG_TEXT (OP_INS CHR ''x'' [(1, 2)]) (Some (1, 1)) (Some 2)]
   \<and> CRDT_asString (crdt (snd (handleTextChange accept_all gen_lowest
         (guest_abc\<lparr>doc_text := ''axbc''\<rparr>) insert_x_at_1))) = ''xabc''"
  by (simp add: local_edit_defs session_defs insert_x_at_1_def change_x_at_1_def)

subsection \<open>The marker after a remote DELETE\<close>

text \<open>
  C2. The marker set for a remote operation is claimed to be cleared once the next change
  event has been checked against it, after a remote DELETE as after a remote INSERT.
  \<^verbatim>\<open>handleRemoteInsert\<close> clears it after the edit; \<^verbatim>\<open>handleRemoteDelete\<close> never does, nor
  does \<^verbatim>\<open>handleTextChange\<close>. After the remote DELETE of \<open>b\<close> and its echo the delete marker is
  still set, and when the user then deletes \<open>c\<close>, at the same range, the event is taken
  for an echo: nothing is sent and the CRDT keeps \<open>c\<close>.
\<close>

theorem remote_delete_marker_stays:
  "activeEdit after_remote_delete =
     Some \<lparr>kind = Delete, range_start = \<lparr>line = 0, character = 1\<rparr>,
           range_end = \<lparr>line = 0, character = 2\<rparr>, edit_text = []\<rparr>
   \<and> pending after_remote_delete = []
   \<and> doc_text after_remote_delete = ''ac''
   \<and> CRDT_asString (crdt after_remote_delete) = ''ac''
   \<and> handleTextChange accept_all gen_lowest (after_remote_delete\<lparr>doc_text := ''a''\<rparr>) delete_at_1
       = (None, after_remote_delete\<lparr>doc_text := ''a''\<rparr>)
   \<and> activeEdit (editorStep accept_all gen_lowest
         (snd (handleRemoteInsert guest_abc [(25, 3)] CHR ''x'' (Some 1)))) = None"
proof -
  have ins: "activeEdit (editorStep accept_all gen_lowest
         (snd (handleRemoteInsert guest_abc [(25, 3)] CHR ''x'' (Some 1)))) = None"
    by (simp add: handleRemoteInsert_def editor_def guest_abc_fields editorStep_def
        applyEdit_def onDidChangeTextDocument_fields Let_def case_prod_beta)
  show ?thesis
    unfolding after_remote_delete_state using ins
    by (simp add: handleTextChange_def startChange_def isDeleteEcho_def delete_at_1_def
        CRDT_asString_def CRDT_delete_def map_filter_simps session_defs)
qed

subsection \<open>Validation on both paths\<close>

text \<open>
  C6. Every message passes the validator exactly once before it is sent and once after it
  is received. \<^verbatim>\<open>sendMessage\<close> calls the validator on its message once and sends it only if
  it passed. Every frame the socket delivers goes through the \<^verbatim>\<open>message\<close> listener to
  \<^verbatim>\<open>handleMessage\<close>, which calls the validator on it first; if that fails no handler runs
  and the session is otherwise unchanged, but for the rejection nobody handles. In every
  entry point (the \<^verbatim>\<open>message\<close> and \<^verbatim>\<open>open\<close> listeners, the change-event listener, the
  completion of an editor job) the messages handed to the socket are exactly the ones that
  passed among the outbound messages validated, one validation for each.
\<close>

theorem messages_validated_once:
  "validated (snd (sendMessage valid m s)) = validated s @ [m]
   \<and> ws_sent (snd (sendMessage valid m s)) = ws_sent s @ filter valid [m]
   \<and> (\<not> valid json \<longrightarrow>
        handleMessage valid s json
          = (Some ValidationError, s\<lparr>validated := validated s @ [json]\<rparr>))
   \<and> (\<exists>vs. validated (snd (handleMessage valid s json)) = validated s @ json # vs
          \<and> ws_sent (snd (handleMessage valid s json)) = ws_sent s @ filter valid vs)
   \<and> (ws_listening s \<longrightarrow>
        (\<exists>vs. validated (on_message valid s json) = validated s @ json # vs
           \<and> ws_sent (on_message valid s json) = ws_sent s @ filter valid vs))
   \<and> (ws_listening s \<and> \<not> valid json \<longrightarrow>
        on_message valid s json
          = s\<lparr>validated := validated s @ [json],
              unhandled := unhandled s @ [ValidationError]\<rparr>)
   \<and> (\<exists>vs. validated (snd (handleTextChange valid gen s e)) = validated s @ vs
          \<and> ws_sent (snd (handleTextChange valid gen s e)) = ws_sent s @ filter valid vs)
   \<and> (\<exists>vs. validated (onDidChangeTextDocument valid gen s e) = validated s @ vs
          \<and> ws_sent (onDidChangeTextDocument valid gen s e) = ws_sent s @ filter valid vs)
   \<and> (\<exists>vs. validated (editorStep valid gen s) = validated s @ vs
          \<and> ws_sent (editorStep valid gen s) = ws_sent s @ filter valid vs)
   \<and> (\<exists>vs. validated (on_open valid username agent s) = validated s @ vs
          \<and> ws_sent (on_open valid username agent s) = ws_sent s @ filter valid vs)"
proof -
  have rej: "\<not> valid json \<longrightarrow>
        handleMessage valid s json
          = (Some ValidationError, s\<lparr>validated := validated s @ [json]\<rparr>)"
    by (simp add: handleMessage_def Let_def)
  have msg: "\<exists>vs. validated (snd (handleMessage valid s json)) = validated s @ json # vs
          \<and> ws_sent (snd (handleMessage valid s json)) = ws_sent s @ filter valid vs"
    using sv_handleMessage [of valid s json] by (simp add: sends_validated_def)
  have lis: "ws_listening s \<longrightarrow>
        (\<exists>vs. validated (on_message valid s json) = validated s @ json # vs
           \<and> ws_sent (on_message valid s json) = ws_sent s @ filter valid vs)"
    using msg by (simp add: on_message_def drop_promise_log)
  have lrej: "ws_listening s \<and> \<not> valid json \<longrightarrow>
        on_message valid s json
          = s\<lparr>validated := validated s @ [json],
              unhandled := unhandled s @ [ValidationError]\<rparr>"
    by (simp add: on_message_def handleMessage_def drop_promise_def Let_def)
  have chg: "\<exists>vs. validated (snd (handleTextChange valid gen s e)) = validated s @ vs
          \<and> ws_sent (snd (handleTextChange valid gen s e)) = ws_sent s @ filter valid vs"
    using sv_handleTextChange [of valid s gen e] by (simp add: sends_validated_def)
  have evt: "\<exists>vs. validated (onDidChangeTextDocument valid gen s e) = validated s @ vs
          \<and> ws_sent (onDidChangeTextDocument valid gen s e) = ws_sent s @ filter valid vs"
    using sv_onDidChangeTextDocument [of valid s gen e] by (simp add: sends_validated_def)
  have edt: "\<exists>vs. validated (editorStep valid gen s) = validated s @ vs
          \<and> ws_sent (editorStep valid gen s) = ws_sent s @ filter valid vs"
    using sv_editorStep [of valid s gen] by (simp add: sends_validated_def)
  have "sends_validated valid s (on_open valid username agent s)"
  proof (cases "ws_listening s")
    case True
    then show ?thesis
      using sv_finish [OF drop_promise_log
          sv_sendMessage [of valid s "MSG_INFO False username agent"]]
      by (simp add: on_open_def sendInfo_def)
  next
    case False
    then show ?thesis by (simp add: on_open_def sv_refl)
  qed
  then have opn: "\<exists>vs. validated (on_open valid username agent s) = validated s @ vs
          \<and> ws_sent (on_open valid username agent s) = ws_sent s @ filter valid vs"
    by (simp add: sends_validated_def)
  from rej msg lis lrej chg evt edt opn show ?thesis
    by (simp add: sendMessage_log)
qed

theorem messages_validated_once_witness:
  "\<not> reject_other (MSG_other 9) \<and> ws_listening fresh_guest
   \<and> handleMessage reject_other fresh_guest (MSG_other 9)
       = (Some ValidationError, fresh_guest\<lparr>validated := [MSG_other 9]\<rparr>)
   \<and> on_message reject_other fresh_guest (MSG_other 9)
       = fresh_guest\<lparr>validated := [MSG_other 9], unhandled := [ValidationError]\<rparr>
   \<and> ws_sent (snd (sendMessage reject_other MSG_REQUEST fresh_guest)) = [MSG_REQUEST]
   \<and> validated (snd (sendMessage reject_other MSG_REQUEST fresh_guest)) = [MSG_REQUEST]"
  using messages_validated_once [of reject_other MSG_REQUEST fresh_guest "MSG_other 9"]
  by (simp add: reject_other_def fresh_guest_def Client_new_def setupGuest_def drop_promise_def)

subsection \<open>A replace\<close>

text \<open>
  C4. A replace deletes, then inserts; replacing \<open>b\<close> by \<open>x\<close> in \<open>abc\<close> is claimed to emit the
  DELETE of \<open>b\<close>, then the INSERT of \<open>x\<close> with a PID between those of \<open>a\<close> and \<open>c\<close>, and to
  yield the text \<open>axc\<close>. The two messages are emitted in that order. But whatever the
  generator, the PID of \<open>x\<close> is generated between the first PID of the index, the document
  start, and the last one, the PID of \<open>c\<close>; the PID of \<open>a\<close> is not among the bounds (the
  slip of C1). A generator that answers with the lowest free digit stays strictly inside
  the bounds it was given, below the PID of \<open>a\<close>, and the CRDT reads \<open>xac\<close>.
\<close>

theorem replace_example_bounds:
  "ws_sent (snd (handleTextChange accept_all gen (guest_abc\<lparr>doc_text := ''axc''\<rparr>)
         replace_b_by_x))
       = [MSG_TEXT (OP_DEL (Some pidB) (Some CHR ''b'')) (Some (1, 1)) (Some 2),
          MSG_TEXT (OP_INS CHR ''x'' (gen (Some 2) (Some docStart) (Some pidC)))
            (Some (1, 1)) (Some 2)]
   \<and> CRDT_pidAt (crdt guest_abc) 0 = Some pidA
   \<and> gen_lowest (Some 2) (Some docStart) (Some pidC) = [(1, 2)]
   \<and> pid_less docStart [(1, 2)] \<and> pid_less [(1, 2)] pidC \<and> \<not> pid_less pidA [(1, 2)]
   \<and> CRDT_asString (crdt (snd (handleTextChange accept_all gen_lowest
         (guest_abc\<lparr>doc_text := ''axc''\<rparr>) replace_b_by_x))) = ''xac''"
proof -
  have wire: "ws_sent (snd (handleTextChange accept_all gen (guest_abc\<lparr>doc_text := ''axc''\<rparr>)
         replace_b_by_x))
       = [MSG_TEXT (OP_DEL (Some pidB) (Some CHR ''b'')) (Some (1, 1)) (Some 2),
          MSG_TEXT (OP_INS CHR ''x'' (gen (Some 2) (Some docStart) (Some pidC)))
            (Some (1, 1)) (Some 2)]"
    by (simp add: handleTextChange_def startChange_def resumeInsert_def
        insertFromContentChange_def deleteFromContentChange_start_def
        deleteFromContentChange_resume_def rejected_def isDeleteEcho_def previousPid_def
        nextPid_def sendInsert_def sendDelete_def sendMessage_def first_error_def
        deletedPids_def charOf_def deletePid_def CRDT_pidAt_def CRDT_charAt_def
        CRDT_delete_def firstPid_def lastPid_def accept_all_def Let_def
        session_defs replace_b_by_x_def)
  have rest: "CRDT_pidAt (crdt guest_abc) 0 = Some pidA
   \<and> gen_lowest (Some 2) (Some docStart) (Some pidC) = [(1, 2)]
   \<and> pid_less docStart [(1, 2)] \<and> pid_less [(1, 2)] pidC \<and> \<not> pid_less pidA [(1, 2)]
   \<and> CRDT_asString (crdt (snd (handleTextChange accept_all gen_lowest
         (guest_abc\<lparr>doc_text := ''axc''\<rparr>) replace_b_by_x))) = ''xac''"
    by (simp add: local_edit_defs session_defs replace_b_by_x_def)
  from wire rest show ?thesis by simp
qed

end
